theory Spec2Isabelle
  imports Complex_Main "HOL-Library.Multiset"
begin

section \<open>Analytics of the retail dashboard (Reports.tsx) and sale recording (Sales.tsx)\<close>

text \<open>
  Conventions of the embedding.
  \<^item> A JavaScript \<open>number\<close> is an exact rational (\<open>rat\<close>): rounding, infinities and
    NaN of IEEE doubles are outside the model, except in \<open>handleSubmit\<close>, where the result
    of \<open>parseInt\<close> may be NaN and is an \<open>option\<close>.
  \<^item> A date is its time value, the milliseconds since the epoch (\<open>int\<close>): \<open>new Date(x)\<close>
    of a stored date is that value, and only valid dates are modelled.
  \<^item> Local time is UTC plus a fixed offset; daylight-saving changes are outside the model.
  \<^item> A plain object used as a dictionary is the list of its entries in insertion order,
    with pairwise distinct keys; \<open>Object.values\<close> enumerates it in the order of
    JavaScript's own property keys. Keys are taken not to be names of properties that
    every object inherits (such as \<open>constructor\<close>), so a lookup finds own entries only.
\<close>

subsection \<open>Plain objects as dictionaries\<close>

type_synonym 'v jsobject = "(string \<times> 'v) list"

definition getProp :: "'v jsobject \<Rightarrow> string \<Rightarrow> 'v option" where
  "getProp obj k = map_of obj k"

text \<open>\<open>obj[k] = v\<close>: an existing property keeps its place, a new one goes last.\<close>

fun setProp :: "'v jsobject \<Rightarrow> string \<Rightarrow> 'v \<Rightarrow> 'v jsobject" where
  "setProp [] k v = [(k, v)]"
| "setProp ((k', v') # rest) k v =
     (if k' = k then (k, v) # rest else (k', v') # setProp rest k v)"

definition isDigit :: "char \<Rightarrow> bool" where
  "isDigit c = (48 \<le> (of_char c :: nat) \<and> (of_char c :: nat) \<le> 57)"

definition decimalValue :: "string \<Rightarrow> nat" where
  "decimalValue s = foldl (\<lambda>a c. 10 * a + ((of_char c :: nat) - 48)) 0 s"

text \<open>
  An array index is a canonical decimal numeral (no sign, no leading zero) whose value
  is at most \<open>2^32 - 2\<close>.
\<close>

definition isArrayIndex :: "string \<Rightarrow> bool" where
  "isArrayIndex s =
     (s \<noteq> [] \<and> list_all isDigit s \<and> (length s = 1 \<or> hd s \<noteq> CHR ''0'')
      \<and> decimalValue s < 4294967295)"

text \<open>
  The order of an object's own property keys: the array indices in ascending numeric
  order first, then the other string keys in the order of their creation.
\<close>

definition ownKeysOrder :: "('k \<Rightarrow> string) \<Rightarrow> 'k list \<Rightarrow> 'k list" where
  "ownKeysOrder key xs =
     sort_key (\<lambda>x. decimalValue (key x)) (filter (\<lambda>x. isArrayIndex (key x)) xs)
     @ filter (\<lambda>x. \<not> isArrayIndex (key x)) xs"

definition objectValues :: "'v jsobject \<Rightarrow> 'v list" where
  "objectValues obj = map snd (ownKeysOrder fst obj)"

subsection \<open>Array helpers\<close>

text \<open>\<open>xs.reduce((sum, x) => sum + f(x), 0)\<close>\<close>

definition sumBy :: "('a \<Rightarrow> rat) \<Rightarrow> 'a list \<Rightarrow> rat" where
  "sumBy f xs = foldl (\<lambda>sum x. sum + f x) 0 xs"

text \<open>
  \<open>xs.sort(cmp)\<close>: the sort is stable; an element goes before the first element that
  the comparator does not put ahead of it.
\<close>

fun insertBy :: "('a \<Rightarrow> 'a \<Rightarrow> rat) \<Rightarrow> 'a \<Rightarrow> 'a list \<Rightarrow> 'a list" where
  "insertBy cmp x [] = [x]"
| "insertBy cmp x (y # ys) =
     (if cmp x y \<le> 0 then x # y # ys else y # insertBy cmp x ys)"

definition sortBy :: "('a \<Rightarrow> 'a \<Rightarrow> rat) \<Rightarrow> 'a list \<Rightarrow> 'a list" where
  "sortBy cmp xs = foldr (insertBy cmp) xs []"

subsection \<open>Data model\<close>

datatype paymentMethod = Cash | Card | Mobile

fun methodKey :: "paymentMethod \<Rightarrow> string" where
  "methodKey Cash = ''cash''"
| "methodKey Card = ''card''"
| "methodKey Mobile = ''mobile''"

text \<open>The two fields the filters read, shared by sales and expenses.\<close>

record item =
  date :: int
  shopId :: string

record sale = item +
  productId :: string
  productName :: string
  quantity :: rat
  unitPrice :: rat
  totalAmount :: rat
  customerName :: "string option"
  paymentMethod :: paymentMethod

record expense = item +
  category :: string
  amount :: rat

record shop =
  shop_id :: string
  shop_name :: string

record product =
  product_id :: string
  product_name :: string
  product_category :: string
  price :: rat
  stock :: "rat jsobject"
  minStock :: rat

text \<open>
  The state of the report page: \<open>selectedShop\<close> is \<open>''''\<close> when no shop is chosen; a bound
  of \<open>dateRange\<close> is \<open>None\<close> for the empty string and the time value of the chosen
  date otherwise.
\<close>

record dateRange =
  rangeFrom :: "int option"
  rangeTo :: "int option"

record reportState =
  selectedShop :: string
  dateRange :: dateRange

text \<open>
  What the computation reads from its environment: the clock (\<open>new Date()\<close>), the offset
  of local time from UTC in milliseconds, and the two \<open>toLocaleDateString\<close> formats.
\<close>

record environment =
  currentTime :: int
  timezoneOffset :: int
  monthLabel :: "int \<Rightarrow> string"
  dayLabel :: "int \<Rightarrow> string"

subsection \<open>Filters\<close>

definition filterDataByDate :: "dateRange \<Rightarrow> ('a item_scheme) list \<Rightarrow> ('a item_scheme) list" where
  "filterDataByDate dr data =
     (if rangeFrom dr = None \<and> rangeTo dr = None then data
      else filter (\<lambda>item.
             let itemDate = date item; fromDate = rangeFrom dr; toDate = rangeTo dr
             in if (case fromDate of Some f \<Rightarrow> itemDate < f | None \<Rightarrow> False) then False
                else if (case toDate of Some t \<Rightarrow> itemDate > t | None \<Rightarrow> False) then False
                else True) data)"

definition filterDataByShop :: "string \<Rightarrow> ('a item_scheme) list \<Rightarrow> ('a item_scheme) list" where
  "filterDataByShop selected data =
     (if selected = [] then data else filter (\<lambda>item. shopId item = selected) data)"

definition getFilteredData :: "reportState \<Rightarrow> ('a item_scheme) list \<Rightarrow> ('a item_scheme) list" where
  "getFilteredData st data = filterDataByShop (selectedShop st) (filterDataByDate (dateRange st) data)"

subsection \<open>Calendar days\<close>

definition msPerDay :: int where
  "msPerDay = 86400000"

text \<open>\<open>d.setDate(d.getDate() - i)\<close>\<close>

definition setDateBack :: "int \<Rightarrow> nat \<Rightarrow> int" where
  "setDateBack t i = t - int i * msPerDay"

text \<open>\<open>d.setHours(0, 0, 0, 0)\<close>: the local midnight at or before \<open>t\<close>.\<close>

definition setHoursZero :: "int \<Rightarrow> int \<Rightarrow> int" where
  "setHoursZero tz t = t - (t + tz) mod msPerDay"


subsection \<open>The aggregations\<close>

record shopEntry =
  shopName :: string
  sales :: rat
  expenses :: rat
  transactions :: rat
  profit :: rat

definition salesByShop :: "shop list \<Rightarrow> sale list \<Rightarrow> expense list \<Rightarrow> shopEntry list" where
  "salesByShop shops filteredSales filteredExpenses =
     map (\<lambda>shop.
       let shopSales = filter (\<lambda>sale. shopId sale = shop_id shop) filteredSales;
           shopExpenses = filter (\<lambda>expense. shopId expense = shop_id shop) filteredExpenses
       in \<lparr> shopName = shop_name shop,
            sales = sumBy totalAmount shopSales,
            expenses = sumBy amount shopExpenses,
            transactions = of_nat (length shopSales),
            profit = sumBy totalAmount shopSales - sumBy amount shopExpenses \<rparr>) shops"

text \<open>\<open>acc[k] = (acc[k] || 0) + v\<close>\<close>

definition addTo :: "rat jsobject \<Rightarrow> string \<Rightarrow> rat \<Rightarrow> rat jsobject" where
  "addTo acc k v =
     setProp acc k ((case getProp acc k of Some old \<Rightarrow> (if old = 0 then 0 else old) | None \<Rightarrow> 0) + v)"

definition salesByMonth :: "environment \<Rightarrow> sale list \<Rightarrow> rat jsobject" where
  "salesByMonth env filteredSales =
     foldl (\<lambda>acc sale. addTo acc (monthLabel env (date sale)) (totalAmount sale)) [] filteredSales"

definition paymentMethods :: "sale list \<Rightarrow> rat jsobject" where
  "paymentMethods filteredSales =
     foldl (\<lambda>acc sale. addTo acc (methodKey (paymentMethod sale)) (totalAmount sale)) [] filteredSales"

definition expenseCategories :: "expense list \<Rightarrow> rat jsobject" where
  "expenseCategories filteredExpenses =
     foldl (\<lambda>acc expense. addTo acc (category expense) (amount expense)) [] filteredExpenses"

record productStat =
  stat_name :: string
  stat_quantity :: rat
  stat_revenue :: rat
  stat_transactions :: rat

definition productSalesStep :: "productStat jsobject \<Rightarrow> sale \<Rightarrow> productStat jsobject" where
  "productSalesStep acc sale =
     (let acc1 = (if getProp acc (productId sale) = None
                  then setProp acc (productId sale)
                         \<lparr> stat_name = productName sale, stat_quantity = 0,
                           stat_revenue = 0, stat_transactions = 0 \<rparr>
                  else acc)
      in case getProp acc1 (productId sale) of
           None \<Rightarrow> acc1
         | Some e \<Rightarrow> setProp acc1 (productId sale)
                      (e \<lparr> stat_quantity := stat_quantity e + quantity sale,
                          stat_revenue := stat_revenue e + totalAmount sale,
                          stat_transactions := stat_transactions e + 1 \<rparr>))"

definition productSales :: "sale list \<Rightarrow> productStat jsobject" where
  "productSales filteredSales = foldl productSalesStep [] filteredSales"

definition topProducts :: "sale list \<Rightarrow> productStat list" where
  "topProducts filteredSales =
     take 10 (sortBy (\<lambda>a b. stat_revenue b - stat_revenue a)
                (objectValues (productSales filteredSales)))"

record dayEntry =
  day_date :: string
  day_amount :: rat
  day_transactions :: rat

definition dayBucket :: "environment \<Rightarrow> sale list \<Rightarrow> nat \<Rightarrow> dayEntry" where
  "dayBucket env filteredSales i =
     (let d = setHoursZero (timezoneOffset env) (setDateBack (currentTime env) i);
          daySales = filter (\<lambda>sale. setHoursZero (timezoneOffset env) (date sale) = d) filteredSales
      in \<lparr> day_date = dayLabel env d,
           day_amount = sumBy totalAmount daySales,
           day_transactions = of_nat (length daySales) \<rparr>)"

text \<open>
  \<open>for (let i = 29; i >= 0; i--)\<close>: the first argument is the number of rounds left,
  so the round run is the one of \<open>i\<close> one less.
\<close>

fun dailySalesLoop :: "nat \<Rightarrow> environment \<Rightarrow> sale list \<Rightarrow> dayEntry list \<Rightarrow> dayEntry list" where
  "dailySalesLoop 0 env filteredSales acc = acc"
| "dailySalesLoop (Suc i) env filteredSales acc =
     dailySalesLoop i env filteredSales (acc @ [dayBucket env filteredSales i])"

definition dailySales :: "environment \<Rightarrow> sale list \<Rightarrow> dayEntry list" where
  "dailySales env filteredSales = dailySalesLoop 30 env filteredSales []"

record stockEntry =
  entry_name :: string
  entry_category :: string
  totalStock :: rat
  stockValue :: rat
  totalSold :: rat
  turnoverRate :: rat
  isLowStock :: bool

definition stockAnalysis :: "product list \<Rightarrow> sale list \<Rightarrow> stockEntry list" where
  "stockAnalysis products filteredSales =
     map (\<lambda>product.
       let total = sumBy (\<lambda>qty. qty) (objectValues (stock product));
           productSalesData = filter (\<lambda>sale. productId sale = product_id product) filteredSales;
           sold = sumBy quantity productSalesData
       in \<lparr> entry_name = product_name product,
            entry_category = product_category product,
            totalStock = total,
            stockValue = total * price product,
            totalSold = sold,
            turnoverRate = (if total > 0 then sold / total else 0),
            isLowStock = (total < minStock product) \<rparr>) products"

record customerStat =
  cust_name :: string
  totalSpent :: rat
  cust_transactions :: rat
  lastPurchase :: int

definition customerStep :: "customerStat jsobject \<Rightarrow> sale \<Rightarrow> customerStat jsobject" where
  "customerStep acc sale =
     (case customerName sale of
        None \<Rightarrow> acc
      | Some n \<Rightarrow>
         (let acc1 = (if getProp acc n = None
                      then setProp acc n \<lparr> cust_name = n, totalSpent = 0,
                                           cust_transactions = 0, lastPurchase = date sale \<rparr>
                      else acc)
          in case getProp acc1 n of
               None \<Rightarrow> acc1
             | Some c \<Rightarrow>
                 (let c1 = c \<lparr> totalSpent := totalSpent c + totalAmount sale,
                              cust_transactions := cust_transactions c + 1 \<rparr>;
                      c2 = (if date sale > lastPurchase c1 then c1 \<lparr> lastPurchase := date sale \<rparr> else c1)
                  in setProp acc1 n c2)))"

definition topCustomers :: "sale list \<Rightarrow> customerStat list" where
  "topCustomers filteredSales =
     take 10 (sortBy (\<lambda>a b. totalSpent b - totalSpent a)
       (objectValues
          (foldl customerStep []
             (filter (\<lambda>sale. case customerName sale of Some n \<Rightarrow> n \<noteq> [] | None \<Rightarrow> False)
                filteredSales))))"

record analyticsResult =
  r_totalSales :: rat
  r_totalExpenses :: rat
  r_profit :: rat
  r_profitMargin :: rat
  r_salesByMonth :: "rat jsobject"
  r_salesByShop :: "shopEntry list"
  r_topProducts :: "productStat list"
  r_paymentMethods :: "rat jsobject"
  r_expenseCategories :: "rat jsobject"
  r_dailySales :: "dayEntry list"
  r_stockAnalysis :: "stockEntry list"
  r_topCustomers :: "customerStat list"
  r_totalTransactions :: rat
  r_averageTransactionValue :: rat

definition analytics ::
  "environment \<Rightarrow> reportState \<Rightarrow> sale list \<Rightarrow> expense list \<Rightarrow> shop list \<Rightarrow> product list
   \<Rightarrow> analyticsResult" where
  "analytics env st allSales allExpenses shops products =
     (let filteredSales = getFilteredData st allSales;
          filteredExpenses = getFilteredData st allExpenses;
          totalSales = sumBy totalAmount filteredSales;
          totalExpenses = sumBy amount filteredExpenses;
          prof = totalSales - totalExpenses;
          profitMargin = (if totalSales > 0 then (prof / totalSales) * 100 else 0)
      in \<lparr> r_totalSales = totalSales,
           r_totalExpenses = totalExpenses,
           r_profit = prof,
           r_profitMargin = profitMargin,
           r_salesByMonth = salesByMonth env filteredSales,
           r_salesByShop = salesByShop shops filteredSales filteredExpenses,
           r_topProducts = topProducts filteredSales,
           r_paymentMethods = paymentMethods filteredSales,
           r_expenseCategories = expenseCategories filteredExpenses,
           r_dailySales = dailySales env filteredSales,
           r_stockAnalysis = stockAnalysis products filteredSales,
           r_topCustomers = topCustomers filteredSales,
           r_totalTransactions = of_nat (length filteredSales),
           r_averageTransactionValue =
             (if length filteredSales > 0 then totalSales / of_nat (length filteredSales) else 0) \<rparr>)"

subsection \<open>Recording a sale (Sales.tsx)\<close>

record formData =
  form_productId :: string
  form_shopId :: string
  form_quantity :: string
  form_customerName :: string
  form_paymentMethod :: paymentMethod
  form_discount :: string
  form_notes :: string

text \<open>The argument of \<open>addSale\<close>; a number that may be NaN is an \<open>option\<close>.\<close>

record newSale =
  new_productId :: string
  new_productName :: string
  new_shopId :: string
  new_shopName :: string
  new_quantity :: "rat option"
  new_unitPrice :: rat
  new_totalAmount :: "rat option"
  new_userId :: string
  new_customerName :: "string option"
  new_paymentMethod :: paymentMethod
  new_discount :: rat
  new_notes :: "string option"

datatype submitError = MissingFields | InvalidSelection | InsufficientStock rat

text \<open>\<open>selectedProduct && formData.shopId ? selectedProduct.stock[formData.shopId] || 0 : 0\<close>\<close>

definition availableStock :: "product list \<Rightarrow> formData \<Rightarrow> rat" where
  "availableStock products form =
     (case find (\<lambda>p. product_id p = form_productId form) products of
        None \<Rightarrow> 0
      | Some selectedProduct \<Rightarrow>
          (if form_shopId form = [] then 0
           else (case getProp (stock selectedProduct) (form_shopId form) of
                   None \<Rightarrow> 0 | Some n \<Rightarrow> n)))"

text \<open>
  \<open>parseInt\<close> and \<open>parseFloat\<close> are parameters; \<open>None\<close> is NaN. The result is the error
  shown to the user, or the record handed to \<open>addSale\<close>.
\<close>

definition handleSubmit ::
  "(string \<Rightarrow> rat option) \<Rightarrow> (string \<Rightarrow> rat option) \<Rightarrow> product list \<Rightarrow> shop list
   \<Rightarrow> string option \<Rightarrow> formData \<Rightarrow> submitError + newSale" where
  "handleSubmit parseInt parseFloat products shops currentUserId form =
     (if form_productId form = [] \<or> form_shopId form = [] \<or> form_quantity form = []
      then Inl MissingFields
      else case (find (\<lambda>p. product_id p = form_productId form) products,
                 find (\<lambda>s. shop_id s = form_shopId form) shops) of
        (Some product, Some shop) \<Rightarrow>
          (let quantityNum = parseInt (form_quantity form)
           in if (case quantityNum of Some q \<Rightarrow> q > availableStock products form | None \<Rightarrow> False)
              then Inl (InsufficientStock (availableStock products form))
              else
                (let discount = (case parseFloat (form_discount form) of
                                   Some d \<Rightarrow> (if d = 0 then 0 else d) | None \<Rightarrow> 0);
                     subtotal = map_option (\<lambda>q. price product * q) quantityNum;
                     discountAmount = map_option (\<lambda>s. (s * discount) / 100) subtotal;
                     total = (case (subtotal, discountAmount) of
                                (Some s, Some d) \<Rightarrow> Some (s - d) | _ \<Rightarrow> None)
                 in Inr \<lparr> new_productId = product_id product,
                          new_productName = product_name product,
                          new_shopId = shop_id shop,
                          new_shopName = shop_name shop,
                          new_quantity = quantityNum,
                          new_unitPrice = price product,
                          new_totalAmount = total,
                          new_userId = (case currentUserId of
                                          Some u \<Rightarrow> (if u = [] then ''1'' else u) | None \<Rightarrow> ''1''),
                          new_customerName =
                            (if form_customerName form = [] then None else Some (form_customerName form)),
                          new_paymentMethod = form_paymentMethod form,
                          new_discount = discount,
                          new_notes = (if form_notes form = [] then None else Some (form_notes form)) \<rparr>))
      | _ \<Rightarrow> Inl InvalidSelection)"

subsection \<open>The specification's wording, and concrete inputs\<close>

text \<open>
  The filter as the specification words it: the date is at or after the lower bound if
  there is one, at or before the upper bound if there is one, and the shop is the chosen
  one if one is chosen.
\<close>

definition passesFilter :: "reportState \<Rightarrow> 'a item_scheme \<Rightarrow> bool" where
  "passesFilter st r =
     ((case rangeFrom (dateRange st) of None \<Rightarrow> True | Some f \<Rightarrow> date r \<ge> f)
      \<and> (case rangeTo (dateRange st) of None \<Rightarrow> True | Some t \<Rightarrow> date r \<le> t)
      \<and> (selectedShop st = [] \<or> shopId r = selectedShop st))"





text \<open>
  Concrete inputs: the specification's example (sales of 100 in shop A and 50 in shop B,
  an expense of 30 in shop A), with dates on days 30 and 29 after the epoch.
\<close>

definition ex_sale1 :: sale where
  "ex_sale1 = \<lparr> date = 2592000500, shopId = ''A'', productId = ''p1'', productName = ''Tea'',
                quantity = 2, unitPrice = 50, totalAmount = 100, customerName = None,
                paymentMethod = Cash \<rparr>"

definition ex_sale2 :: sale where
  "ex_sale2 = \<lparr> date = 2505600000, shopId = ''B'', productId = ''p2'', productName = ''Rice'',
                quantity = 1, unitPrice = 50, totalAmount = 50, customerName = Some ''Ana'',
                paymentMethod = Card \<rparr>"

definition ex_sales :: "sale list" where
  "ex_sales = [ex_sale1, ex_sale2]"

definition ex_expenses :: "expense list" where
  "ex_expenses = [\<lparr> date = 2592000000, shopId = ''A'', category = ''rent'', amount = 30 \<rparr>]"

definition ex_shops :: "shop list" where
  "ex_shops = [\<lparr> shop_id = ''A'', shop_name = ''Main'' \<rparr>, \<lparr> shop_id = ''B'', shop_name = ''Branch'' \<rparr>]"

definition ex_products :: "product list" where
  "ex_products = [\<lparr> product_id = ''p1'', product_name = ''Tea'', product_category = ''drinks'',
                    price = 50, stock = [(''A'', 3), (''B'', 1)], minStock = 5 \<rparr>]"

definition ex_state :: reportState where
  "ex_state = \<lparr> selectedShop = [], dateRange = \<lparr> rangeFrom = None, rangeTo = None \<rparr> \<rparr>"

definition ex_filter :: reportState where
  "ex_filter = \<lparr> selectedShop = ''A'',
                 dateRange = \<lparr> rangeFrom = Some 2592000000, rangeTo = Some 2678400000 \<rparr> \<rparr>"

definition ex_env :: "int \<Rightarrow> environment" where
  "ex_env now = \<lparr> currentTime = now, timezoneOffset = 0,
                  monthLabel = (\<lambda>t. ''month''), dayLabel = (\<lambda>t. ''day'') \<rparr>"

text \<open>A form for two units of the example product at a discount of 10 percent.\<close>

definition ex_parseInt :: "string \<Rightarrow> rat option" where
  "ex_parseInt s = (if s = ''2'' then Some 2 else None)"

definition ex_parseFloat :: "string \<Rightarrow> rat option" where
  "ex_parseFloat s = (if s = ''10'' then Some 10 else None)"

definition ex_form :: formData where
  "ex_form = \<lparr> form_productId = ''p1'', form_shopId = ''A'', form_quantity = ''2'',
               form_customerName = [], form_paymentMethod = Cash, form_discount = ''10'',
               form_notes = [] \<rparr>"




section \<open>Properties\<close>

lemmas ex_defs = ex_sale1_def ex_sale2_def ex_sales_def ex_expenses_def ex_shops_def ex_products_def
  ex_state_def ex_filter_def ex_env_def

lemmas filter_defs = getFilteredData_def filterDataByShop_def filterDataByDate_def


subsection \<open>Sums over arrays and objects\<close>

lemma foldl_add_sum_list: "foldl (\<lambda>sum x. sum + f x) a xs = (a::rat) + sum_list (map f xs)"
  by (induction xs arbitrary: a) (simp_all add: add.assoc)

lemma sumBy_sum_list: "sumBy f xs = sum_list (map f xs)"
  by (simp add: sumBy_def foldl_add_sum_list)



subsection \<open>The combined filter\<close>

lemma getFilteredData_filter: "getFilteredData st data = filter (passesFilter st) data"
  unfolding getFilteredData_def filterDataByShop_def filterDataByDate_def passesFilter_def
  by (auto simp: Let_def split: option.splits intro!: filter_cong)

text \<open>
  Claim C4. \<open>getFilteredData\<close> keeps exactly the records that pass \<open>passesFilter\<close>
  (both date bounds inclusive, an absent bound or shop passing everything), in their
  order; it serves any record with a date and a shopId, and the totals of the report
  are those of the sales and of the expenses filtered by this one predicate, each list
  on its own.
\<close>

theorem getFilteredData_passesFilter:
  "getFilteredData st data = filter (passesFilter st) data
  \<and> (r \<in> set (getFilteredData st data) \<longleftrightarrow> r \<in> set data \<and> passesFilter st r)
  \<and> r_totalSales (analytics env st allSales allExpenses shops products)
      = sum_list (map totalAmount (filter (passesFilter st) allSales))
  \<and> r_totalExpenses (analytics env st allSales allExpenses shops products)
      = sum_list (map amount (filter (passesFilter st) allExpenses))"
  by (simp add: getFilteredData_filter analytics_def Let_def sumBy_sum_list)

text \<open>
  With shop \<open>A\<close> chosen and a date range starting on day 30, only the first example sale
  is kept.
\<close>

theorem getFilteredData_passesFilter_witness:
  "getFilteredData ex_filter ex_sales = [ex_sale1]"
  using getFilteredData_passesFilter
      [where st = ex_filter and data = ex_sales and r = ex_sale1 and env = "ex_env 0"
      and allSales = ex_sales and allExpenses = ex_expenses and shops = ex_shops
      and products = ex_products]
  by (simp add: passesFilter_def ex_defs)

subsection \<open>The profit margin\<close>



subsection \<open>The average transaction value\<close>



subsection \<open>The breakdown by shop\<close>

text \<open>
  Claim C5. \<open>salesByShop\<close> has one entry per shop, in the order of the shops given, a
  shop without transactions included; the entry of the \<open>i\<close>-th shop carries its name, the
  sum of \<open>totalAmount\<close> of its filtered sales, the sum of \<open>amount\<close> of its filtered
  expenses, the number of its filtered sales, and as profit the former sum minus the
  latter.
\<close>

theorem salesByShop_per_shop:
  "length (r_salesByShop (analytics env st allSales allExpenses shops products)) = length shops
  \<and> (\<forall>i < length shops.
       shopName (r_salesByShop (analytics env st allSales allExpenses shops products) ! i) = shop_name (shops ! i)
     \<and> sales (r_salesByShop (analytics env st allSales allExpenses shops products) ! i)
         = sum_list (map totalAmount (filter (\<lambda>s. shopId s = shop_id (shops ! i)) (getFilteredData st allSales)))
     \<and> expenses (r_salesByShop (analytics env st allSales allExpenses shops products) ! i)
         = sum_list (map amount (filter (\<lambda>e. shopId e = shop_id (shops ! i)) (getFilteredData st allExpenses)))
     \<and> transactions (r_salesByShop (analytics env st allSales allExpenses shops products) ! i)
         = of_nat (length (filter (\<lambda>s. shopId s = shop_id (shops ! i)) (getFilteredData st allSales)))
     \<and> profit (r_salesByShop (analytics env st allSales allExpenses shops products) ! i)
         = sum_list (map totalAmount (filter (\<lambda>s. shopId s = shop_id (shops ! i)) (getFilteredData st allSales)))
           - sum_list (map amount (filter (\<lambda>e. shopId e = shop_id (shops ! i)) (getFilteredData st allExpenses))))"
  by (simp add: analytics_def salesByShop_def Let_def sumBy_sum_list)

text \<open>
  The first shop of the example has sales of 100 and, after expenses of 30, a profit
  of 70.
\<close>

theorem salesByShop_per_shop_witness:
  "(0::nat) < length ex_shops
   \<and> sales (r_salesByShop (analytics (ex_env 2592001000) ex_state ex_sales ex_expenses ex_shops ex_products) ! 0) = 100
   \<and> profit (r_salesByShop (analytics (ex_env 2592001000) ex_state ex_sales ex_expenses ex_shops ex_products) ! 0) = 70"
proof -
  have h: "(0::nat) < length ex_shops"
    by (simp add: ex_defs)
  show ?thesis
    using h salesByShop_per_shop [where env = "ex_env 2592001000" and st = ex_state and allSales = ex_sales
        and allExpenses = ex_expenses and shops = ex_shops and products = ex_products,
        THEN conjunct2, rule_format, OF h]
    by (simp add: filter_defs ex_defs)
qed

subsection \<open>The stock analysis\<close>



subsection \<open>The amount of a recorded sale\<close>

text \<open>
  Claim C8. When \<open>handleSubmit\<close> records a sale and the quantity parses to \<open>q\<close>, the
  \<open>totalAmount\<close> handed to \<open>addSale\<close>, computed as \<open>p * q - (p * q * d) / 100\<close> from the
  product's price \<open>p\<close> and the discount \<open>d\<close> (0 when it does not parse), equals
  \<open>unitPrice * quantity * (1 - discount / 100)\<close>, with \<open>unitPrice = p\<close> and
  \<open>quantity = q\<close>.
\<close>

theorem handleSubmit_totalAmount:
  assumes "handleSubmit parseInt parseFloat products shops cu form = Inr s"
    and "parseInt (form_quantity form) = Some q"
  shows "new_totalAmount s = Some (new_unitPrice s * q * (1 - new_discount s / 100))
    \<and> new_quantity s = Some q
    \<and> (\<exists>p. find (\<lambda>p. product_id p = form_productId form) products = Some p
           \<and> new_unitPrice s = price p
           \<and> new_totalAmount s = Some (price p * q - (price p * q * new_discount s) / 100))
    \<and> new_discount s = (case parseFloat (form_discount form) of Some d \<Rightarrow> d | None \<Rightarrow> 0)
    \<and> q \<le> availableStock products form"
  using assms
  by (auto simp: handleSubmit_def Let_def algebra_simps split: if_splits option.splits prod.splits)

text \<open>
  Two units at 50 with a discount of 10 percent: 90.
\<close>

theorem handleSubmit_totalAmount_witness:
  "\<exists>s. handleSubmit ex_parseInt ex_parseFloat ex_products ex_shops None ex_form = Inr s
      \<and> ex_parseInt (form_quantity ex_form) = Some 2
      \<and> new_totalAmount s = Some 90"
proof -
  have q: "ex_parseInt (form_quantity ex_form) = Some 2"
    by (simp add: ex_parseInt_def ex_form_def)
  obtain s where s: "handleSubmit ex_parseInt ex_parseFloat ex_products ex_shops None ex_form = Inr s"
    by (simp add: handleSubmit_def availableStock_def getProp_def ex_parseInt_def ex_parseFloat_def
          ex_form_def ex_defs)
  have d: "new_discount s = 10" and u: "new_unitPrice s = 50"
    using s
    by (auto simp: handleSubmit_def availableStock_def getProp_def ex_parseInt_def ex_parseFloat_def
          ex_form_def ex_defs)
  from handleSubmit_totalAmount [OF s q] have "new_totalAmount s = Some 90"
    by (simp add: d u)
  with s q show ?thesis by blast
qed

subsection \<open>Per-shop figures add up to the totals\<close>









subsection \<open>The daily trend\<close>













subsection \<open>The product ranking\<close>


































subsection \<open>Dependence on the clock\<close>








end
